theory Spec2Isabelle
  imports Main
begin

section \<open>Python values, exceptions and the interpreter's services\<close>

text \<open>
  The dispatch core of the ZetaChain MCP server (\<^verbatim>\<open>core/base.py\<close>, \<^verbatim>\<open>core/transport.py\<close>,
  \<^verbatim>\<open>server.py\<close>) works on the values that \<^verbatim>\<open>json.loads\<close> produces and that
  \<^verbatim>\<open>json.dumps\<close> consumes: \<^verbatim>\<open>None\<close>, booleans, integers, floats, strings, lists and
  dictionaries with string keys. A dictionary is an association list in insertion order
  (a Python dictionary has each key once; a lookup takes the entry of the key);
  a float is kept as its \<^verbatim>\<open>repr\<close> text, since the core only passes floats through.
  A string is a list of characters with code points below 256. The calls of the logger
  change no value and no control flow and are left out.
\<close>

datatype pyval =
    PNone
  | PBool bool
  | PInt int
  | PFloat string
  | PStr string
  | PList "pyval list"
  | PDict "(string \<times> pyval) list"

text \<open>
  An exception is an instance of \<^verbatim>\<open>Exception\<close>: its class name and the text \<^verbatim>\<open>str(e)\<close>.
  Every \<^verbatim>\<open>except Exception\<close> clause of the source catches all of them. Signals outside
  that class (\<^verbatim>\<open>KeyboardInterrupt\<close>, task cancellation) are asynchronous and not part of
  this model.
\<close>

datatype pyexc = PyExc (exc_class: string) (exc_str: string)

definition apostrophe :: char where
  "apostrophe = CHR 0x27"

fun type_name :: "pyval \<Rightarrow> string" where
  "type_name PNone = ''NoneType''"
| "type_name (PBool b) = ''bool''"
| "type_name (PInt i) = ''int''"
| "type_name (PFloat f) = ''float''"
| "type_name (PStr s) = ''str''"
| "type_name (PList xs) = ''list''"
| "type_name (PDict d) = ''dict''"

text \<open>
  \<^verbatim>\<open>x.get(key, default)\<close>: a dictionary returns the stored value or the default; every
  other value has no attribute \<^verbatim>\<open>get\<close> and the call raises \<^verbatim>\<open>AttributeError\<close>.
\<close>

definition dict_get :: "(string \<times> pyval) list \<Rightarrow> string \<Rightarrow> pyval \<Rightarrow> pyval" where
  "dict_get d key dflt = (case map_of d key of None \<Rightarrow> dflt | Some v \<Rightarrow> v)"

fun py_get :: "pyval \<Rightarrow> string \<Rightarrow> pyval \<Rightarrow> pyexc + pyval" where
  "py_get (PDict d) key dflt = Inr (dict_get d key dflt)"
| "py_get v key dflt =
     Inl (PyExc ''AttributeError''
       ([apostrophe] @ type_name v @ [apostrophe] @ '' object has no attribute '' @
        [apostrophe] @ ''get'' @ [apostrophe]))"

text \<open>
  A tool handler is what \<^verbatim>\<open>await tool_method(**arguments)\<close> does: given the value
  passed as \<^verbatim>\<open>arguments\<close> and the state of the collaborators (wallet store, pools,
  connections, random source), it returns a value or raises, and leaves a new collaborator
  state. Binding the keyword arguments is part of the call, so a \<^verbatim>\<open>TypeError\<close> for a
  wrong argument shape is one of the handler's exceptions. The handlers of \<^verbatim>\<open>server.py\<close>
  forward to managers that hold no reference to the server, so a handler reads and
  writes the collaborators only, never \<^verbatim>\<open>self.tools\<close> or \<^verbatim>\<open>self._initialized\<close>.
\<close>

type_synonym 'w handler = "pyval \<Rightarrow> 'w \<Rightarrow> (pyexc + pyval) \<times> 'w"

text \<open>
  What the core takes from the standard library and the interpreter: \<^verbatim>\<open>json.loads(s)\<close>,
  \<^verbatim>\<open>json.dumps(v)\<close>, \<^verbatim>\<open>json.dumps(v, indent=2)\<close>, each returning or raising, and the
  text \<^verbatim>\<open>str(v)\<close> of the values that are not strings, \<^verbatim>\<open>None\<close> or booleans. They are
  parameters of the model: no property below depends on how they compute.
\<close>

record interp =
  json_loads :: "string \<Rightarrow> pyexc + pyval"
  json_dumps :: "pyval \<Rightarrow> pyexc + string"
  json_dumps_indent2 :: "pyval \<Rightarrow> pyexc + string"
  py_repr :: "pyval \<Rightarrow> string"

text \<open>
  What a subclass of the abstract \<^verbatim>\<open>MCPServer\<close> supplies: the body of \<^verbatim>\<open>_load_tools\<close>
  (it raises, or assigns \<^verbatim>\<open>self.tools\<close>, and may use the collaborators), the attributes
  found by \<^verbatim>\<open>getattr(self, attr, None)\<close>, and what an overriding \<^verbatim>\<open>close\<close> does to the
  collaborators before it calls \<^verbatim>\<open>super().close()\<close>.
\<close>

record 'w env = interp +
  load_tools :: "'w \<Rightarrow> (pyexc + pyval list) \<times> 'w"
  getattr_tool :: "string \<Rightarrow> 'w handler option"
  on_close :: "'w \<Rightarrow> 'w"

text \<open>The text an f-string puts in place of \<^verbatim>\<open>{v}\<close>, that is \<^verbatim>\<open>str(v)\<close>.\<close>

fun py_str :: "'w env \<Rightarrow> pyval \<Rightarrow> string" where
  "py_str env (PStr s) = s"
| "py_str env PNone = ''None''"
| "py_str env (PBool b) = (if b then ''True'' else ''False'')"
| "py_str env v = py_repr env v"

section \<open>The server object\<close>

text \<open>
  \<^verbatim>\<open>MCPServer.__init__\<close> sets \<^verbatim>\<open>self.tools = []\<close>, \<^verbatim>\<open>self._initialized = False\<close> and a
  fresh \<^verbatim>\<open>StdioTransport\<close> whose \<^verbatim>\<open>_closed\<close> is \<^verbatim>\<open>False\<close>. The field \<open>world\<close> is the state
  of the collaborators the handlers work on. \<open>load_calls\<close> is a ghost counter of the
  invocations of \<^verbatim>\<open>_load_tools\<close>; no decision of the code reads it.
\<close>

record 'w server =
  tools :: "pyval list"
  initialized :: bool
  transport_closed :: bool
  world :: 'w
  load_calls :: nat

definition new_server :: "'w \<Rightarrow> 'w server" where
  "new_server w =
     \<lparr>tools = [], initialized = False, transport_closed = False, world = w, load_calls = 0\<rparr>"

definition initialize_result :: pyval where
  "initialize_result =
     PDict [
       (''protocolVersion'', PStr ''2024-11-05''),
       (''capabilities'', PDict [
          (''tools'', PDict [(''listChanged'', PBool True)]),
          (''resources'', PDict [(''subscribe'', PBool True), (''listChanged'', PBool True)]),
          (''prompts'', PDict [(''listChanged'', PBool True)]),
          (''logging'', PDict []),
          (''experimental'', PDict [])]),
       (''serverInfo'', PDict [
          (''name'', PStr ''zetachain-mcp-server''),
          (''version'', PStr ''1.0.0'')])]"

text \<open>
  \<^verbatim>\<open>initialize\<close>: the flag is set only after \<^verbatim>\<open>_load_tools\<close> has returned, so a loader
  that raises leaves the server uninitialized and the exception goes to the caller.
\<close>

definition initialize :: "'w env \<Rightarrow> 'w server \<Rightarrow> (pyexc + pyval) \<times> 'w server" where
  "initialize env s =
     (if \<not> initialized s then
        (case load_tools env (world s) of
           (Inl e, w) \<Rightarrow> (Inl e, s\<lparr>world := w, load_calls := Suc (load_calls s)\<rparr>)
         | (Inr ts, w) \<Rightarrow>
             (Inr initialize_result,
              s\<lparr>tools := ts, initialized := True, world := w,
                load_calls := Suc (load_calls s)\<rparr>))
      else (Inr initialize_result, s))"

definition list_tools :: "'w server \<Rightarrow> pyval list" where
  "list_tools s = tools s"

definition tool_not_found :: "string \<Rightarrow> string" where
  "tool_not_found name = ''Tool '' @ [apostrophe] @ name @ [apostrophe] @ '' not found''"

text \<open>
  \<^verbatim>\<open>call_tool\<close>: the lookup and its \<^verbatim>\<open>raise ValueError\<close> stand before the \<^verbatim>\<open>try\<close>; only
  the handler's call is inside it.
\<close>

definition call_tool ::
  "'w env \<Rightarrow> pyval \<Rightarrow> pyval \<Rightarrow> 'w server \<Rightarrow> (pyexc + pyval) \<times> 'w server" where
  "call_tool env name arguments s =
     (case getattr_tool env (''tool_'' @ py_str env name) of
        None \<Rightarrow> (Inl (PyExc ''ValueError'' (tool_not_found (py_str env name))), s)
      | Some tool_method \<Rightarrow>
          (case tool_method arguments (world s) of
             (Inr result, w) \<Rightarrow>
               (Inr (PDict [(''success'', PBool True), (''result'', result)]), s\<lparr>world := w\<rparr>)
           | (Inl e, w) \<Rightarrow>
               (Inr (PDict [(''success'', PBool False), (''error'', PStr (exc_str e))]),
                s\<lparr>world := w\<rparr>)))"

section \<open>The protocol dispatcher\<close>

definition rpc_result :: "pyval \<Rightarrow> pyval \<Rightarrow> pyval" where
  "rpc_result request_id result =
     PDict [(''jsonrpc'', PStr ''2.0''), (''id'', request_id), (''result'', result)]"

definition rpc_error :: "pyval \<Rightarrow> int \<Rightarrow> string \<Rightarrow> pyval" where
  "rpc_error request_id code message =
     PDict [(''jsonrpc'', PStr ''2.0''), (''id'', request_id),
            (''error'', PDict [(''code'', PInt code), (''message'', PStr message)])]"

definition text_content :: "string \<Rightarrow> pyval" where
  "text_content t = PDict [(''content'', PList [PDict [(''type'', PStr ''text''), (''text'', PStr t)]])]"

text \<open>The body of the \<^verbatim>\<open>try\<close> block of \<^verbatim>\<open>handle_request\<close>, branch by branch.\<close>

definition dispatch ::
  "'w env \<Rightarrow> pyval \<Rightarrow> pyval \<Rightarrow> pyval \<Rightarrow> 'w server \<Rightarrow> (pyexc + pyval) \<times> 'w server" where
  "dispatch env method params request_id s =
     (if method = PStr ''initialize'' then
        (case initialize env s of
           (Inl e, s') \<Rightarrow> (Inl e, s')
         | (Inr result, s') \<Rightarrow> (Inr (rpc_result request_id result), s'))
      else if method = PStr ''tools/list'' then
        (Inr (rpc_result request_id (PDict [(''tools'', PList (list_tools s))])), s)
      else if method = PStr ''tools/call'' then
        (case py_get params ''name'' PNone of
           Inl e \<Rightarrow> (Inl e, s)
         | Inr tool_name \<Rightarrow>
             (case py_get params ''arguments'' (PDict []) of
                Inl e \<Rightarrow> (Inl e, s)
              | Inr tool_args \<Rightarrow>
                  (case call_tool env tool_name tool_args s of
                     (Inl e, s') \<Rightarrow> (Inl e, s')
                   | (Inr result, s') \<Rightarrow>
                       (case json_dumps_indent2 env result of
                          Inl e \<Rightarrow> (Inl e, s')
                        | Inr t \<Rightarrow> (Inr (rpc_result request_id (text_content t)), s')))))
      else (Inr (rpc_error request_id (- 32601) (''Method not found: '' @ py_str env method)), s))"

text \<open>
  \<^verbatim>\<open>handle_request\<close>: the three \<^verbatim>\<open>request.get\<close> calls stand before the \<^verbatim>\<open>try\<close>, so
  their \<^verbatim>\<open>AttributeError\<close> on a request that is no dictionary leaves the method; an
  exception of the \<^verbatim>\<open>try\<close> body becomes the \<open>-32603\<close> response.
\<close>

definition handle_request ::
  "'w env \<Rightarrow> pyval \<Rightarrow> 'w server \<Rightarrow> (pyexc + pyval) \<times> 'w server" where
  "handle_request env request s =
     (case py_get request ''method'' PNone of
        Inl e \<Rightarrow> (Inl e, s)
      | Inr method \<Rightarrow>
          (case py_get request ''params'' (PDict []) of
             Inl e \<Rightarrow> (Inl e, s)
           | Inr params \<Rightarrow>
               (case py_get request ''id'' (PStr ''1'') of
                  Inl e \<Rightarrow> (Inl e, s)
                | Inr request_id \<Rightarrow>
                    (case dispatch env method params request_id s of
                       (Inl e, s') \<Rightarrow> (Inr (rpc_error request_id (- 32603) (exc_str e)), s')
                     | (Inr response, s') \<Rightarrow> (Inr response, s')))))"

section \<open>The stream adapter\<close>

text \<open>
  \<^verbatim>\<open>str.strip()\<close> removes the leading and trailing characters for which
  \<^verbatim>\<open>str.isspace()\<close> holds; below code point 256 these are the ones listed here.
\<close>

definition is_space :: "char \<Rightarrow> bool" where
  "is_space c =
     (of_char c \<in> {9, 10, 11, 12, 13, 28, 29, 30, 31, 32, 133, 160 :: nat})"

definition strip :: "string \<Rightarrow> string" where
  "strip s = rev (dropWhile is_space (rev (dropWhile is_space s)))"

text \<open>
  One call of \<^verbatim>\<open>sys.stdin.readline\<close>: it returns a line with its newline, or the empty
  string at the end of the input, or it raises. The input of a run is the list of these
  events; when the list is used up the stream is at its end.
\<close>

datatype stdin_event = Readline string | ReadFails pyexc

definition read_request :: "'w server \<Rightarrow> stdin_event \<Rightarrow> string option" where
  "read_request s ev =
     (if transport_closed s then None
      else (case ev of
              Readline line \<Rightarrow> (if line = [] then None else Some (strip line))
            | ReadFails e \<Rightarrow> None))"

text \<open>
  \<^verbatim>\<open>write_response\<close> prints one line unless the transport is closed. The output of a run
  is the list of the printed texts.
\<close>

definition write_response :: "'w server \<Rightarrow> string \<Rightarrow> string list" where
  "write_response s response = (if transport_closed s then [] else [response])"

definition parse_error_response :: "pyexc \<Rightarrow> pyval" where
  "parse_error_response e = rpc_error PNone (- 32700) (''Parse error: '' @ exc_str e)"

text \<open>
  The \<^verbatim>\<open>while True\<close> loop of \<^verbatim>\<open>run\<close>. Its result is the exception that leaves the
  loop, if any, the printed lines and the server. A \<^verbatim>\<open>break\<close> ends it with no
  exception: on a read that gives nothing, on a line that is empty after \<^verbatim>\<open>strip\<close>, and
  in the \<^verbatim>\<open>except Exception\<close> clause. An exception raised inside the
  \<^verbatim>\<open>except json.JSONDecodeError\<close> clause is not caught by its sibling clause.
\<close>

fun run_loop ::
  "'w env \<Rightarrow> stdin_event list \<Rightarrow> 'w server \<Rightarrow> pyexc option \<times> string list \<times> 'w server" where
  "run_loop env [] s = (None, [], s)"
| "run_loop env (ev # rest) s =
     (case read_request s ev of
        None \<Rightarrow> (None, [], s)
      | Some request_data \<Rightarrow>
          if request_data = [] then (None, [], s)
          else
            (case json_loads env request_data of
               Inl e \<Rightarrow>
                 if exc_class e = ''JSONDecodeError'' then
                   (case json_dumps env (parse_error_response e) of
                      Inl e' \<Rightarrow> (Some e', [], s)
                    | Inr t \<Rightarrow>
                        (case run_loop env rest s of
                           (r, out, s') \<Rightarrow> (r, write_response s t @ out, s')))
                 else (None, [], s)
             | Inr request \<Rightarrow>
                 (case handle_request env request s of
                    (Inl e, s') \<Rightarrow> (None, [], s')
                  | (Inr response, s') \<Rightarrow>
                      (case json_dumps env response of
                         Inl e \<Rightarrow> (None, [], s')
                       | Inr t \<Rightarrow>
                           (case run_loop env rest s' of
                              (r, out, s'') \<Rightarrow> (r, write_response s' t @ out, s''))))))"

definition close :: "'w env \<Rightarrow> 'w server \<Rightarrow> 'w server" where
  "close env s = s\<lparr>world := on_close env (world s), transport_closed := True\<rparr>"

text \<open>
  \<^verbatim>\<open>run\<close>: \<^verbatim>\<open>initialize\<close> stands before the \<^verbatim>\<open>try\<close>, so its exception leaves \<^verbatim>\<open>run\<close>
  with nothing closed; after the loop the \<^verbatim>\<open>finally\<close> clause closes the server.
\<close>

definition run ::
  "'w env \<Rightarrow> stdin_event list \<Rightarrow> 'w server \<Rightarrow> pyexc option \<times> string list \<times> 'w server" where
  "run env input s =
     (case initialize env s of
        (Inl e, s') \<Rightarrow> (Some e, [], s')
      | (Inr caps, s') \<Rightarrow>
          (case run_loop env input s' of
             (r, out, s'') \<Rightarrow> (r, out, close env s'')))"

text \<open>A session over HTTP or in a test: requests handled one after the other.\<close>

fun handle_requests :: "'w env \<Rightarrow> pyval list \<Rightarrow> 'w server \<Rightarrow> 'w server" where
  "handle_requests env [] s = s"
| "handle_requests env (request # rest) s =
     handle_requests env rest (snd (handle_request env request s))"

section \<open>The concrete server of \<^verbatim>\<open>server.py\<close>\<close>

text \<open>
  \<^verbatim>\<open>ZetaChainMCPServer._load_tools\<close> assigns this list literal to \<^verbatim>\<open>self.tools\<close>.
\<close>

definition zeta_tools :: "pyval list" where
  "zeta_tools = [
    PDict [
      (''name'', PStr ''create_wallet''),
      (''description'', PStr ''Create a new ZetaChain wallet''),
      (''inputSchema'', PDict [
        (''type'', PStr ''object''),
        (''properties'', PDict [
          (''name'', PDict [(''type'', PStr ''string''), (''description'', PStr ''Name for the wallet'')]),
          (''mnemonic'', PDict [(''type'', PStr ''string''), (''description'', PStr ''Optional mnemonic phrase'')])]),
        (''required'', PList [PStr ''name''])])],
    PDict [
      (''name'', PStr ''import_wallet''),
      (''description'', PStr ''Import an existing wallet from private key''),
      (''inputSchema'', PDict [
        (''type'', PStr ''object''),
        (''properties'', PDict [
          (''name'', PDict [(''type'', PStr ''string''), (''description'', PStr ''Name for the wallet'')]),
          (''private_key'', PDict [
            (''type'', PStr ''string''),
            (''description'', PStr ''Private key in hex format'')])]),
        (''required'', PList [PStr ''name'', PStr ''private_key''])])],
    PDict [
      (''name'', PStr ''list_wallets''),
      (''description'', PStr ''List all created/imported wallets''),
      (''inputSchema'', PDict [(''type'', PStr ''object''), (''properties'', PDict [])])],
    PDict [
      (''name'', PStr ''get_balance''),
      (''description'', PStr ''Get balance for a wallet on a specific chain''),
      (''inputSchema'', PDict [
        (''type'', PStr ''object''),
        (''properties'', PDict [
          (''wallet_name'', PDict [(''type'', PStr ''string''), (''description'', PStr ''Name of the wallet'')]),
          (''chain'', PDict [
            (''type'', PStr ''string''),
            (''description'', PStr ''Chain name (default: zetachain)'')])]),
        (''required'', PList [PStr ''wallet_name''])])],
    PDict [
      (''name'', PStr ''get_wallet_info''),
      (''description'', PStr ''Get detailed information about a wallet''),
      (''inputSchema'', PDict [
        (''type'', PStr ''object''),
        (''properties'', PDict [
          (''wallet_name'', PDict [(''type'', PStr ''string''), (''description'', PStr ''Name of the wallet'')])]),
        (''required'', PList [PStr ''wallet_name''])])],
    PDict [
      (''name'', PStr ''get_supported_chains''),
      (''description'', PStr ''Get list of supported chains for cross-chain operations''),
      (''inputSchema'', PDict [(''type'', PStr ''object''), (''properties'', PDict [])])],
    PDict [
      (''name'', PStr ''get_bridge_info''),
      (''description'', PStr ''Get bridge information between two chains''),
      (''inputSchema'', PDict [
        (''type'', PStr ''object''),
        (''properties'', PDict [
          (''from_chain'', PDict [(''type'', PStr ''string''), (''description'', PStr ''Source chain'')]),
          (''to_chain'', PDict [(''type'', PStr ''string''), (''description'', PStr ''Destination chain'')])]),
        (''required'', PList [PStr ''from_chain'', PStr ''to_chain''])])],
    PDict [
      (''name'', PStr ''estimate_cross_chain_fee''),
      (''description'', PStr ''Estimate fees for cross-chain transfer''),
      (''inputSchema'', PDict [
        (''type'', PStr ''object''),
        (''properties'', PDict [
          (''from_chain'', PDict [(''type'', PStr ''string''), (''description'', PStr ''Source chain'')]),
          (''to_chain'', PDict [(''type'', PStr ''string''), (''description'', PStr ''Destination chain'')]),
          (''amount'', PDict [(''type'', PStr ''string''), (''description'', PStr ''Amount to transfer'')])]),
        (''required'', PList [PStr ''from_chain'', PStr ''to_chain'', PStr ''amount''])])],
    PDict [
      (''name'', PStr ''get_cross_chain_status''),
      (''description'', PStr ''Get status of a cross-chain transaction''),
      (''inputSchema'', PDict [
        (''type'', PStr ''object''),
        (''properties'', PDict [
          (''tx_hash'', PDict [(''type'', PStr ''string''), (''description'', PStr ''Transaction hash'')])]),
        (''required'', PList [PStr ''tx_hash''])])],
    PDict [
      (''name'', PStr ''get_cross_chain_history''),
      (''description'', PStr ''Get cross-chain transaction history for an address''),
      (''inputSchema'', PDict [
        (''type'', PStr ''object''),
        (''properties'', PDict [
          (''address'', PDict [(''type'', PStr ''string''), (''description'', PStr ''Wallet address'')]),
          (''limit'', PDict [
            (''type'', PStr ''integer''),
            (''description'', PStr ''Number of transactions to return'')])]),
        (''required'', PList [PStr ''address''])])],
    PDict [
      (''name'', PStr ''send_omnichain_message''),
      (''description'', PStr ''Send an omnichain message''),
      (''inputSchema'', PDict [
        (''type'', PStr ''object''),
        (''properties'', PDict [
          (''from_chain'', PDict [(''type'', PStr ''string''), (''description'', PStr ''Source chain'')]),
          (''to_chain'', PDict [(''type'', PStr ''string''), (''description'', PStr ''Destination chain'')]),
          (''message'', PDict [(''type'', PStr ''string''), (''description'', PStr ''Message content'')]),
          (''sender_address'', PDict [(''type'', PStr ''string''), (''description'', PStr ''Sender address'')]),
          (''recipient_address'', PDict [(''type'', PStr ''string''), (''description'', PStr ''Recipient address'')])]),
        (''required'', PList [PStr ''from_chain'', PStr ''to_chain'', PStr ''message'', PStr ''sender_address'', PStr ''recipient_address''])])],
    PDict [
      (''name'', PStr ''get_message_status''),
      (''description'', PStr ''Get status of an omnichain message''),
      (''inputSchema'', PDict [
        (''type'', PStr ''object''),
        (''properties'', PDict [
          (''message_id'', PDict [(''type'', PStr ''string''), (''description'', PStr ''Message ID'')])]),
        (''required'', PList [PStr ''message_id''])])],
    PDict [
      (''name'', PStr ''get_messages''),
      (''description'', PStr ''Get omnichain messages for an address''),
      (''inputSchema'', PDict [
        (''type'', PStr ''object''),
        (''properties'', PDict [
          (''address'', PDict [(''type'', PStr ''string''), (''description'', PStr ''Wallet address'')]),
          (''limit'', PDict [
            (''type'', PStr ''integer''),
            (''description'', PStr ''Number of messages to return'')])]),
        (''required'', PList [PStr ''address''])])],
    PDict [
      (''name'', PStr ''get_omnichain_stats''),
      (''description'', PStr ''Get omnichain messaging statistics''),
      (''inputSchema'', PDict [(''type'', PStr ''object''), (''properties'', PDict [])])],
    PDict [
      (''name'', PStr ''get_chain_status''),
      (''description'', PStr ''Get status of all supported chains''),
      (''inputSchema'', PDict [(''type'', PStr ''object''), (''properties'', PDict [])])],
    PDict [
      (''name'', PStr ''get_proposals''),
      (''description'', PStr ''Get governance proposals''),
      (''inputSchema'', PDict [
        (''type'', PStr ''object''),
        (''properties'', PDict [
          (''status'', PDict [
            (''type'', PStr ''string''),
            (''description'', PStr ''Filter by status (voting, passed, failed)'')])])])],
    PDict [
      (''name'', PStr ''get_proposal''),
      (''description'', PStr ''Get details of a specific proposal''),
      (''inputSchema'', PDict [
        (''type'', PStr ''object''),
        (''properties'', PDict [
          (''proposal_id'', PDict [(''type'', PStr ''string''), (''description'', PStr ''Proposal ID'')])]),
        (''required'', PList [PStr ''proposal_id''])])],
    PDict [
      (''name'', PStr ''vote_on_proposal''),
      (''description'', PStr ''Vote on a governance proposal''),
      (''inputSchema'', PDict [
        (''type'', PStr ''object''),
        (''properties'', PDict [
          (''proposal_id'', PDict [(''type'', PStr ''string''), (''description'', PStr ''Proposal ID'')]),
          (''voter_address'', PDict [(''type'', PStr ''string''), (''description'', PStr ''Voter address'')]),
          (''vote'', PDict [
            (''type'', PStr ''string''),
            (''enum'', PList [PStr ''yes'', PStr ''no'', PStr ''abstain'']),
            (''description'', PStr ''Vote option'')]),
          (''voting_power'', PDict [(''type'', PStr ''integer''), (''description'', PStr ''Voting power'')])]),
        (''required'', PList [PStr ''proposal_id'', PStr ''voter_address'', PStr ''vote'', PStr ''voting_power''])])],
    PDict [
      (''name'', PStr ''get_voting_power''),
      (''description'', PStr ''Get voting power for an address''),
      (''inputSchema'', PDict [
        (''type'', PStr ''object''),
        (''properties'', PDict [
          (''address'', PDict [(''type'', PStr ''string''), (''description'', PStr ''Wallet address'')])]),
        (''required'', PList [PStr ''address''])])],
    PDict [
      (''name'', PStr ''get_governance_stats''),
      (''description'', PStr ''Get governance statistics''),
      (''inputSchema'', PDict [(''type'', PStr ''object''), (''properties'', PDict [])])],
    PDict [
      (''name'', PStr ''get_pools''),
      (''description'', PStr ''Get available liquidity pools''),
      (''inputSchema'', PDict [(''type'', PStr ''object''), (''properties'', PDict [])])],
    PDict [
      (''name'', PStr ''get_pool_info''),
      (''description'', PStr ''Get detailed information about a specific pool''),
      (''inputSchema'', PDict [
        (''type'', PStr ''object''),
        (''properties'', PDict [
          (''pool_id'', PDict [(''type'', PStr ''string''), (''description'', PStr ''Pool ID'')])]),
        (''required'', PList [PStr ''pool_id''])])],
    PDict [
      (''name'', PStr ''add_liquidity''),
      (''description'', PStr ''Add liquidity to a pool''),
      (''inputSchema'', PDict [
        (''type'', PStr ''object''),
        (''properties'', PDict [
          (''pool_id'', PDict [(''type'', PStr ''string''), (''description'', PStr ''Pool ID'')]),
          (''token_a_amount'', PDict [(''type'', PStr ''string''), (''description'', PStr ''Amount of token A'')]),
          (''token_b_amount'', PDict [(''type'', PStr ''string''), (''description'', PStr ''Amount of token B'')]),
          (''user_address'', PDict [(''type'', PStr ''string''), (''description'', PStr ''User address'')])]),
        (''required'', PList [PStr ''pool_id'', PStr ''token_a_amount'', PStr ''token_b_amount'', PStr ''user_address''])])],
    PDict [
      (''name'', PStr ''remove_liquidity''),
      (''description'', PStr ''Remove liquidity from a pool''),
      (''inputSchema'', PDict [
        (''type'', PStr ''object''),
        (''properties'', PDict [
          (''pool_id'', PDict [(''type'', PStr ''string''), (''description'', PStr ''Pool ID'')]),
          (''lp_tokens'', PDict [
            (''type'', PStr ''string''),
            (''description'', PStr ''Amount of LP tokens to remove'')]),
          (''user_address'', PDict [(''type'', PStr ''string''), (''description'', PStr ''User address'')])]),
        (''required'', PList [PStr ''pool_id'', PStr ''lp_tokens'', PStr ''user_address''])])],
    PDict [
      (''name'', PStr ''swap_tokens''),
      (''description'', PStr ''Swap tokens in a pool''),
      (''inputSchema'', PDict [
        (''type'', PStr ''object''),
        (''properties'', PDict [
          (''pool_id'', PDict [(''type'', PStr ''string''), (''description'', PStr ''Pool ID'')]),
          (''token_in'', PDict [(''type'', PStr ''string''), (''description'', PStr ''Input token'')]),
          (''amount_in'', PDict [(''type'', PStr ''string''), (''description'', PStr ''Input amount'')]),
          (''user_address'', PDict [(''type'', PStr ''string''), (''description'', PStr ''User address'')])]),
        (''required'', PList [PStr ''pool_id'', PStr ''token_in'', PStr ''amount_in'', PStr ''user_address''])])],
    PDict [
      (''name'', PStr ''get_user_positions''),
      (''description'', PStr ''Get user's liquidity positions''),
      (''inputSchema'', PDict [
        (''type'', PStr ''object''),
        (''properties'', PDict [
          (''user_address'', PDict [(''type'', PStr ''string''), (''description'', PStr ''User address'')])]),
        (''required'', PList [PStr ''user_address''])])],
    PDict [
      (''name'', PStr ''get_defi_stats''),
      (''description'', PStr ''Get DeFi platform statistics''),
      (''inputSchema'', PDict [(''type'', PStr ''object''), (''properties'', PDict [])])],
    PDict [
      (''name'', PStr ''get_network_info''),
      (''description'', PStr ''Get network information for a specific chain''),
      (''inputSchema'', PDict [
        (''type'', PStr ''object''),
        (''properties'', PDict [
          (''chain'', PDict [
            (''type'', PStr ''string''),
            (''description'', PStr ''Chain name (default: zetachain)'')])])])]]"

definition zeta_tool_attrs :: "string list" where
  "zeta_tool_attrs = [
    ''tool_create_wallet'',
    ''tool_import_wallet'',
    ''tool_list_wallets'',
    ''tool_get_balance'',
    ''tool_get_wallet_info'',
    ''tool_get_supported_chains'',
    ''tool_get_bridge_info'',
    ''tool_estimate_cross_chain_fee'',
    ''tool_get_cross_chain_status'',
    ''tool_get_cross_chain_history'',
    ''tool_send_omnichain_message'',
    ''tool_get_message_status'',
    ''tool_get_messages'',
    ''tool_get_omnichain_stats'',
    ''tool_get_chain_status'',
    ''tool_get_proposals'',
    ''tool_get_proposal'',
    ''tool_vote_on_proposal'',
    ''tool_get_voting_power'',
    ''tool_get_governance_stats'',
    ''tool_get_pools'',
    ''tool_get_pool_info'',
    ''tool_add_liquidity'',
    ''tool_remove_liquidity'',
    ''tool_swap_tokens'',
    ''tool_get_user_positions'',
    ''tool_get_defi_stats'',
    ''tool_get_network_info'']"

text \<open>
  The class defines these \<^verbatim>\<open>tool_*\<close> methods and no other attribute whose name
  starts with \<^verbatim>\<open>tool_\<close>. Each one forwards to a manager; what the managers do is the
  parameter \<open>managers\<close>. The overriding \<^verbatim>\<open>close\<close> closes the chain connections first.
\<close>

definition ZetaChainMCPServer ::
  "interp \<Rightarrow> (string \<Rightarrow> 'w handler) \<Rightarrow> ('w \<Rightarrow> 'w) \<Rightarrow> 'w env" where
  "ZetaChainMCPServer py managers connection_close =
     \<lparr>json_loads = json_loads py, json_dumps = json_dumps py,
      json_dumps_indent2 = json_dumps_indent2 py, py_repr = py_repr py,
      load_tools = (\<lambda>w. (Inr zeta_tools, w)),
      getattr_tool = (\<lambda>attr. if attr \<in> set zeta_tool_attrs then Some (managers attr) else None),
      on_close = connection_close\<rparr>"

text \<open>The \<^verbatim>\<open>name\<close> field of a descriptor, and the fields of a response.\<close>

definition dict_field :: "string \<Rightarrow> pyval \<Rightarrow> pyval option" where
  "dict_field key v = (case v of PDict d \<Rightarrow> map_of d key | _ \<Rightarrow> None)"

text \<open>
  The response of the data model: \<^verbatim>\<open>jsonrpc\<close>, \<^verbatim>\<open>id\<close> and exactly one of \<^verbatim>\<open>result\<close>
  and \<^verbatim>\<open>error\<close>, the error holding an integer code and a message string.
\<close>

definition well_formed_response :: "pyval \<Rightarrow> bool" where
  "well_formed_response r =
     (case r of
        PDict [(k1, PStr version), (k2, request_id), (k3, body)] \<Rightarrow>
          k1 = ''jsonrpc'' \<and> version = ''2.0'' \<and> k2 = ''id'' \<and>
          (k3 = ''result'' \<or>
           (k3 = ''error'' \<and>
            (case body of
               PDict [(c, PInt code), (m, PStr message)] \<Rightarrow> c = ''code'' \<and> m = ''message''
             | _ \<Rightarrow> False)))
      | _ \<Rightarrow> False)"

text \<open>The envelope of the tool invoker.\<close>

definition success_envelope :: "pyval \<Rightarrow> pyval" where
  "success_envelope result = PDict [(''success'', PBool True), (''result'', result)]"

definition failure_envelope :: "string \<Rightarrow> pyval" where
  "failure_envelope message = PDict [(''success'', PBool False), (''error'', PStr message)]"

text \<open>The loader has run once if the flag is set, and never before.\<close>

definition loaded_once :: "'w server \<Rightarrow> bool" where
  "loaded_once s = (load_calls s = (if initialized s then 1 else 0))"

section \<open>A test double of the interpreter and of the managers\<close>

text \<open>
  The examples below run the server on concrete input, so they need concrete library
  functions. The serialisers print what \<^verbatim>\<open>json.dumps(v)\<close> and
  \<^verbatim>\<open>json.dumps(v, indent=2)\<close> print (separators, \<^verbatim>\<open>ensure_ascii\<close> escapes, one level
  of two spaces per nesting); \<open>repr_text\<close> is Python's \<^verbatim>\<open>repr\<close> of the same values. The
  decoder knows the three lines the examples feed it and answers them as \<^verbatim>\<open>json.loads\<close>
  does. The managers count their calls; the pool listing raises, every other tool echoes
  its arguments.
\<close>

fun show_nat :: "nat \<Rightarrow> string" where
  "show_nat n =
     (if n < 10 then [char_of (48 + n)] else show_nat (n div 10) @ [char_of (48 + n mod 10)])"

declare show_nat.simps [simp del]

definition show_int :: "int \<Rightarrow> string" where
  "show_int i = (if i < 0 then ''-'' @ show_nat (nat (- i)) else show_nat (nat i))"

fun join :: "string \<Rightarrow> string list \<Rightarrow> string" where
  "join sep [] = []"
| "join sep [x] = x"
| "join sep (x # y # ys) = x @ sep @ join sep (y # ys)"

definition hex_digit :: "nat \<Rightarrow> char" where
  "hex_digit n = (if n < 10 then char_of (48 + n) else char_of (87 + n))"

definition hex2 :: "char \<Rightarrow> string" where
  "hex2 c = [hex_digit ((of_char c :: nat) div 16), hex_digit ((of_char c :: nat) mod 16)]"

definition json_escape :: "char \<Rightarrow> string" where
  "json_escape c =
     (if c = CHR 0x22 then [CHR 0x5C, CHR 0x22]
      else if c = CHR 0x5C then [CHR 0x5C, CHR 0x5C]
      else if c = CHR 0x0A then [CHR 0x5C, CHR ''n'']
      else if c = CHR 0x0D then [CHR 0x5C, CHR ''r'']
      else if c = CHR 0x09 then [CHR 0x5C, CHR ''t'']
      else if c = CHR 0x08 then [CHR 0x5C, CHR ''b'']
      else if c = CHR 0x0C then [CHR 0x5C, CHR ''f'']
      else if 32 \<le> (of_char c :: nat) \<and> (of_char c :: nat) \<le> 126 then [c]
      else [CHR 0x5C, CHR ''u'', CHR ''0'', CHR ''0''] @ hex2 c)"

definition json_string :: "string \<Rightarrow> string" where
  "json_string s = [CHR 0x22] @ concat (map json_escape s) @ [CHR 0x22]"

definition json_float :: "string \<Rightarrow> string" where
  "json_float r =
     (if r = ''nan'' then ''NaN'' else if r = ''inf'' then ''Infinity''
      else if r = ''-inf'' then ''-Infinity'' else r)"

primrec json_compact :: "pyval \<Rightarrow> string" where
  "json_compact PNone = ''null''"
| "json_compact (PBool b) = (if b then ''true'' else ''false'')"
| "json_compact (PInt i) = show_int i"
| "json_compact (PFloat r) = json_float r"
| "json_compact (PStr s) = json_string s"
| "json_compact (PList xs) = ''['' @ join '', '' (map json_compact xs) @ '']''"
| "json_compact (PDict d) =
     ''{'' @ join '', '' (map (\<lambda>(k, t). json_string k @ '': '' @ t)
                            (map (map_prod id json_compact) d)) @ ''}''"

definition newline_indent :: "nat \<Rightarrow> string" where
  "newline_indent level = CHR 0x0A # replicate (2 * level) CHR '' ''"

primrec json_indented :: "pyval \<Rightarrow> nat \<Rightarrow> string" where
  "json_indented PNone = (\<lambda>level. ''null'')"
| "json_indented (PBool b) = (\<lambda>level. if b then ''true'' else ''false'')"
| "json_indented (PInt i) = (\<lambda>level. show_int i)"
| "json_indented (PFloat r) = (\<lambda>level. json_float r)"
| "json_indented (PStr s) = (\<lambda>level. json_string s)"
| "json_indented (PList xs) =
     (\<lambda>level.
        let items = map (\<lambda>f. f (Suc level)) (map json_indented xs)
        in if items = [] then ''[]''
           else ''['' @ newline_indent (Suc level) @
                join ('','' @ newline_indent (Suc level)) items @
                newline_indent level @ '']'')"
| "json_indented (PDict d) =
     (\<lambda>level.
        let items = map (\<lambda>(k, f). json_string k @ '': '' @ f (Suc level))
                      (map (map_prod id json_indented) d)
        in if items = [] then ''{}''
           else ''{'' @ newline_indent (Suc level) @
                join ('','' @ newline_indent (Suc level)) items @
                newline_indent level @ ''}'')"

definition repr_escape :: "char \<Rightarrow> char \<Rightarrow> string" where
  "repr_escape quote c =
     (if c = quote \<or> c = CHR 0x5C then [CHR 0x5C, c]
      else if c = CHR 0x09 then [CHR 0x5C, CHR ''t'']
      else if c = CHR 0x0A then [CHR 0x5C, CHR ''n'']
      else if c = CHR 0x0D then [CHR 0x5C, CHR ''r'']
      else if (of_char c :: nat) < 32 \<or> (of_char c :: nat) = 127 then [CHR 0x5C, CHR ''x''] @ hex2 c
      else if (of_char c :: nat) < 127 then [c]
      else if 161 \<le> (of_char c :: nat) \<and> (of_char c :: nat) \<noteq> 173 then [c]
      else [CHR 0x5C, CHR ''x''] @ hex2 c)"

definition repr_string :: "string \<Rightarrow> string" where
  "repr_string s =
     (let quote = (if CHR 0x27 \<in> set s \<and> CHR 0x22 \<notin> set s then CHR 0x22 else CHR 0x27)
      in [quote] @ concat (map (repr_escape quote) s) @ [quote])"

primrec repr_text :: "pyval \<Rightarrow> string" where
  "repr_text PNone = ''None''"
| "repr_text (PBool b) = (if b then ''True'' else ''False'')"
| "repr_text (PInt i) = show_int i"
| "repr_text (PFloat r) = r"
| "repr_text (PStr s) = repr_string s"
| "repr_text (PList xs) = ''['' @ join '', '' (map repr_text xs) @ '']''"
| "repr_text (PDict d) =
     ''{'' @ join '', '' (map (\<lambda>(k, t). repr_string k @ '': '' @ t)
                            (map (map_prod id repr_text) d)) @ ''}''"

definition ping_line :: string where
  "ping_line = ''{'' @ [CHR 0x22] @ ''id'' @ [CHR 0x22] @ '': 7, '' @
               [CHR 0x22] @ ''method'' @ [CHR 0x22] @ '': '' @
               [CHR 0x22] @ ''ping'' @ [CHR 0x22] @ ''}''"

definition demo_loads :: "string \<Rightarrow> pyexc + pyval" where
  "demo_loads line =
     (if line = ping_line then Inr (PDict [(''id'', PInt 7), (''method'', PStr ''ping'')])
      else if line = ''[1]'' then Inr (PList [PInt 1])
      else if line = ''{bad'' then
        Inl (PyExc ''JSONDecodeError''
          ''Expecting property name enclosed in double quotes: line 1 column 2 (char 1)'')
      else Inl (PyExc ''JSONDecodeError'' ''Expecting value: line 1 column 1 (char 0)''))"

definition demo_py :: interp where
  "demo_py =
     \<lparr>json_loads = demo_loads, json_dumps = (\<lambda>v. Inr (json_compact v)),
      json_dumps_indent2 = (\<lambda>v. Inr (json_indented v 0)), py_repr = repr_text\<rparr>"

definition demo_managers :: "string \<Rightarrow> nat handler" where
  "demo_managers attr arguments w =
     (if attr = ''tool_get_pools'' then (Inl (PyExc ''RuntimeError'' ''boom''), Suc w)
      else (Inr (PDict [(''tool'', PStr attr), (''arguments'', arguments)]), Suc w))"

definition demo_env :: "nat env" where
  "demo_env = ZetaChainMCPServer demo_py demo_managers (\<lambda>w. w)"

definition demo_request :: "pyval \<Rightarrow> string \<Rightarrow> (string \<times> pyval) list \<Rightarrow> (string \<times> pyval) list" where
  "demo_request request_id method params =
     [(''jsonrpc'', PStr ''2.0''), (''id'', request_id), (''method'', PStr method),
      (''params'', PDict params)]"

definition initialized_demo :: "nat server" where
  "initialized_demo =
     \<lparr>tools = zeta_tools, initialized = True, transport_closed = False, world = 0, load_calls = 1\<rparr>"

definition unknown_tool_request :: "(string \<times> pyval) list" where
  "unknown_tool_request =
     demo_request (PInt 3) ''tools/call''
       [(''name'', PStr ''does_not_exist''), (''arguments'', PDict [])]"

definition boom_request :: "(string \<times> pyval) list" where
  "boom_request = demo_request (PInt 4) ''tools/call'' [(''name'', PStr ''get_pools'')]"

definition status_request :: "(string \<times> pyval) list" where
  "status_request = demo_request (PInt 5) ''tools/call'' [(''name'', PStr ''get_chain_status'')]"

definition nameless_request :: "(string \<times> pyval) list" where
  "nameless_request = demo_request (PInt 6) ''tools/call'' [(''arguments'', PDict [])]"

definition malformed_params_request :: "(string \<times> pyval) list" where
  "malformed_params_request =
     [(''id'', PInt 9), (''method'', PStr ''tools/call''), (''params'', PList [PInt 1])]"

definition bad_line_error :: pyexc where
  "bad_line_error =
     PyExc ''JSONDecodeError''
       ''Expecting property name enclosed in double quotes: line 1 column 2 (char 1)''"


section \<open>Properties of the dispatcher\<close>

subsection \<open>What a request dictionary gets back\<close>

lemma handle_request_dict:
  "handle_request env (PDict req) s =
     (case dispatch env (dict_get req ''method'' PNone) (dict_get req ''params'' (PDict []))
             (dict_get req ''id'' (PStr ''1'')) s of
        (Inl e, s') \<Rightarrow> (Inr (rpc_error (dict_get req ''id'' (PStr ''1'')) (- 32603) (exc_str e)), s')
      | (Inr response, s') \<Rightarrow> (Inr response, s'))"
  by (simp add: handle_request_def)

lemma dispatch_shape:
  assumes "dispatch env m p rid s = (Inr resp, s')"
  shows "(\<exists>r. resp = rpc_result rid r) \<or> (\<exists>msg. resp = rpc_error rid (- 32601) msg)"
  using assms
  by (auto simp: dispatch_def split: if_splits sum.splits prod.splits)

lemma well_formed_rpc_result: "well_formed_response (rpc_result rid r)"
  by (simp add: well_formed_response_def rpc_result_def)

lemma well_formed_rpc_error: "well_formed_response (rpc_error rid c m)"
  by (simp add: well_formed_response_def rpc_error_def)

lemma id_rpc_result: "dict_field ''id'' (rpc_result rid r) = Some rid"
  by (simp add: dict_field_def rpc_result_def)

lemma id_rpc_error: "dict_field ''id'' (rpc_error rid c m) = Some rid"
  by (simp add: dict_field_def rpc_error_def)

lemma result_rpc_error: "dict_field ''result'' (rpc_error rid c m) = None"
  by (simp add: dict_field_def rpc_error_def)

lemma result_rpc_result: "dict_field ''result'' (rpc_result rid r) = Some r"
  by (simp add: dict_field_def rpc_result_def)

text \<open>
  Claim C2, as the code has it. A request that is a mapping never makes
  \<^verbatim>\<open>handle_request\<close> raise: it returns a well-formed response, and an exception that
  leaves the method branches is returned as the error object with code \<open>-32603\<close> and the
  exception's text as message. A request that is not a mapping makes it raise
  \<^verbatim>\<open>AttributeError\<close> and leaves the server as it was.
\<close>

theorem handle_request_total_on_dicts:
  "(\<exists>resp s'. handle_request env (PDict req) s = (Inr resp, s') \<and> well_formed_response resp \<and>
     (\<forall>e. fst (dispatch env (dict_get req ''method'' PNone) (dict_get req ''params'' (PDict []))
             (dict_get req ''id'' (PStr ''1'')) s) = Inl e \<longrightarrow>
          resp = PDict [(''jsonrpc'', PStr ''2.0''), (''id'', dict_get req ''id'' (PStr ''1'')),
                   (''error'', PDict [(''code'', PInt (- 32603)),
                                      (''message'', PStr (exc_str e))])])) \<and>
   ((\<forall>d. request \<noteq> PDict d) \<longrightarrow>
      (\<exists>msg. handle_request env request s = (Inl (PyExc ''AttributeError'' msg), s)))"
proof
  show "\<exists>resp s'. handle_request env (PDict req) s = (Inr resp, s') \<and> well_formed_response resp \<and>
     (\<forall>e. fst (dispatch env (dict_get req ''method'' PNone) (dict_get req ''params'' (PDict []))
             (dict_get req ''id'' (PStr ''1'')) s) = Inl e \<longrightarrow>
          resp = PDict [(''jsonrpc'', PStr ''2.0''), (''id'', dict_get req ''id'' (PStr ''1'')),
                   (''error'', PDict [(''code'', PInt (- 32603)),
                                      (''message'', PStr (exc_str e))])])"
  proof (cases "dispatch env (dict_get req ''method'' PNone) (dict_get req ''params'' (PDict []))
             (dict_get req ''id'' (PStr ''1'')) s")
    case (Pair r s')
    show ?thesis
    proof (cases r)
      case (Inl e)
      with Pair show ?thesis
        by (simp add: handle_request_dict well_formed_rpc_error) (simp add: rpc_error_def)
    next
      case (Inr resp)
      with Pair have d: "dispatch env (dict_get req ''method'' PNone)
          (dict_get req ''params'' (PDict [])) (dict_get req ''id'' (PStr ''1'')) s = (Inr resp, s')"
        by simp
      from dispatch_shape[OF d] d show ?thesis
        by (auto simp: handle_request_dict well_formed_rpc_error well_formed_rpc_result)
    qed
  qed
  show "(\<forall>d. request \<noteq> PDict d) \<longrightarrow>
      (\<exists>msg. handle_request env request s = (Inl (PyExc ''AttributeError'' msg), s))"
    by (cases request) (simp_all add: handle_request_def)
qed

theorem handle_request_total_on_dicts_witness:
  "fst (dispatch demo_env (PStr ''tools/call'') (PList [PInt 1]) (PInt 9) (new_server 0)) =
     Inl (PyExc ''AttributeError'' (CHR 0x27 # ''list' object has no attribute 'get'' @ [CHR 0x27])) \<and>
   handle_request demo_env (PDict malformed_params_request) (new_server 0) =
     (Inr (PDict [(''jsonrpc'', PStr ''2.0''), (''id'', PInt 9),
             (''error'', PDict [(''code'', PInt (- 32603)),
                (''message'',
                 PStr (CHR 0x27 # ''list' object has no attribute 'get'' @ [CHR 0x27]))])]),
      new_server 0) \<and>
   well_formed_response
     (PDict [(''jsonrpc'', PStr ''2.0''), (''id'', PInt 9),
             (''error'', PDict [(''code'', PInt (- 32603)),
                (''message'',
                 PStr (CHR 0x27 # ''list' object has no attribute 'get'' @ [CHR 0x27]))])]) \<and>
   (\<exists>msg. handle_request demo_env (PInt 5) (new_server 0) =
      (Inl (PyExc ''AttributeError'' msg), new_server 0))"
proof -
  let ?s = "new_server (0::nat)"
  let ?msg = "CHR 0x27 # ''list' object has no attribute 'get'' @ [CHR 0x27]"
  let ?resp = "PDict [(''jsonrpc'', PStr ''2.0''), (''id'', PInt 9),
             (''error'', PDict [(''code'', PInt (- 32603)), (''message'', PStr ?msg)])]"
  have d: "dispatch demo_env (PStr ''tools/call'') (PList [PInt 1]) (PInt 9) ?s =
             (Inl (PyExc ''AttributeError'' ?msg), ?s)"
    by (simp add: dispatch_def apostrophe_def)
  have g: "dict_get malformed_params_request ''method'' PNone = PStr ''tools/call''"
    "dict_get malformed_params_request ''params'' (PDict []) = PList [PInt 1]"
    "dict_get malformed_params_request ''id'' (PStr ''1'') = PInt 9"
    by (simp_all add: dict_get_def malformed_params_request_def)
  note total = handle_request_total_on_dicts[of demo_env malformed_params_request ?s "PInt 5"]
  from total obtain resp s' where
    h: "handle_request demo_env (PDict malformed_params_request) ?s = (Inr resp, s')"
    and w: "well_formed_response resp"
    and e: "resp = ?resp"
    using d g by auto
  from h d g have "s' = ?s"
    by (simp add: handle_request_dict)
  moreover from total have "\<exists>msg. handle_request demo_env (PInt 5) ?s =
      (Inl (PyExc ''AttributeError'' msg), ?s)"
    by simp
  ultimately show ?thesis using h w e d
    by simp
qed

text \<open>
  Counterexample to claim C2 as stated: the line \<^verbatim>\<open>[1]\<close> decodes to a list, the three
  \<^verbatim>\<open>request.get\<close> calls stand before the \<^verbatim>\<open>try\<close>, and \<^verbatim>\<open>handle_request\<close> raises
  \<^verbatim>\<open>AttributeError\<close>; the stream adapter then leaves its loop without writing anything.
\<close>

theorem handle_request_raises_counterexample:
  "handle_request demo_env (PList [PInt 1]) (new_server 0) =
     (Inl (PyExc ''AttributeError'' (CHR 0x27 # ''list' object has no attribute 'get'' @ [CHR 0x27])),
      new_server 0) \<and>
   json_loads demo_env (strip (''[1]'' @ [CHR 0x0A])) = Inr (PList [PInt 1]) \<and>
   fst (snd (run demo_env [Readline (''[1]'' @ [CHR 0x0A]), Readline (ping_line @ [CHR 0x0A])]
               (new_server 0))) = []"
  by (simp add: handle_request_def apostrophe_def run_def initialize_def read_request_def
        new_server_def strip_def is_space_def demo_env_def ZetaChainMCPServer_def demo_py_def
        demo_loads_def ping_line_def)

text \<open>
  Claim C6. For every request mapping the dispatcher returns a response whose \<^verbatim>\<open>id\<close> is
  the request's \<^verbatim>\<open>id\<close>, or the string \<^verbatim>\<open>"1"\<close> when the request has none; this covers
  every path, the \<open>-32601\<close> and \<open>-32603\<close> error responses included.
\<close>

theorem response_id_echo:
  "\<exists>resp s'. handle_request env (PDict req) s = (Inr resp, s') \<and>
     dict_field ''id'' resp = Some (dict_get req ''id'' (PStr ''1''))"
proof (cases "dispatch env (dict_get req ''method'' PNone) (dict_get req ''params'' (PDict []))
             (dict_get req ''id'' (PStr ''1'')) s")
  case (Pair r s')
  show ?thesis
  proof (cases r)
    case (Inl e)
    with Pair show ?thesis
      by (simp add: handle_request_dict id_rpc_error)
  next
    case (Inr resp)
    with Pair have d: "dispatch env (dict_get req ''method'' PNone)
        (dict_get req ''params'' (PDict [])) (dict_get req ''id'' (PStr ''1'')) s = (Inr resp, s')"
      by simp
    from dispatch_shape[OF d] d show ?thesis
      by (auto simp: handle_request_dict id_rpc_error id_rpc_result)
  qed
qed

theorem response_id_echo_witness:
  "\<exists>resp s'. handle_request demo_env (PDict [(''method'', PStr ''tools/list'')]) (new_server 0) =
       (Inr resp, s') \<and> dict_field ''id'' resp = Some (PStr ''1'')"
  using response_id_echo[of demo_env "[(''method'', PStr ''tools/list'')]" "new_server 0"]
  by (simp add: dict_get_def)

text \<open>
  Claim C7. For every method value \<open>m\<close> other than \<^verbatim>\<open>initialize\<close>, \<^verbatim>\<open>tools/list\<close> and
  \<^verbatim>\<open>tools/call\<close> (a missing method is \<^verbatim>\<open>None\<close>), the response is exactly the error
  \<open>-32601\<close> with the echoed id and the message \<^verbatim>\<open>Method not found: \<close> followed by \<open>m\<close>
  as the f-string formats it (a string \<open>m\<close> as itself), and the server is unchanged.
\<close>

theorem method_not_found:
  assumes "dict_get req ''method'' PNone = m"
    and "m \<notin> {PStr ''initialize'', PStr ''tools/list'', PStr ''tools/call''}"
  shows "handle_request env (PDict req) s =
           (Inr (PDict [(''jsonrpc'', PStr ''2.0''), (''id'', dict_get req ''id'' (PStr ''1'')),
                   (''error'', PDict [(''code'', PInt (- 32601)),
                      (''message'',
                       PStr (''Method not found: '' @
                         (case m of
                            PStr name \<Rightarrow> name
                          | PNone \<Rightarrow> ''None''
                          | PBool b \<Rightarrow> (if b then ''True'' else ''False'')
                          | _ \<Rightarrow> py_repr env m)))])]), s)"
  using assms
  by (cases m) (simp_all add: handle_request_dict dispatch_def rpc_error_def)

theorem method_not_found_witness:
  "dict_get [(''id'', PInt 7), (''method'', PStr ''ping'')] ''method'' PNone = PStr ''ping'' \<and>
   PStr ''ping'' \<notin> {PStr ''initialize'', PStr ''tools/list'', PStr ''tools/call''} \<and>
   handle_request demo_env (PDict [(''id'', PInt 7), (''method'', PStr ''ping'')]) (new_server 0) =
     (Inr (PDict [(''jsonrpc'', PStr ''2.0''), (''id'', PInt 7),
             (''error'', PDict [(''code'', PInt (- 32601)),
                                (''message'', PStr ''Method not found: ping'')])]),
      new_server 0)"
  using method_not_found[of "[(''id'', PInt 7), (''method'', PStr ''ping'')]" "PStr ''ping''"
          demo_env "new_server 0"]
  by (simp add: dict_get_def)

subsection \<open>The tool invoker\<close>

text \<open>
  Claim C1, as the code has it. A \<^verbatim>\<open>tools/call\<close> request whose \<^verbatim>\<open>params.name\<close> is a
  string naming no \<^verbatim>\<open>tool_\<close> attribute gets a JSON-RPC error response, code \<open>-32603\<close>
  and message \<^verbatim>\<open>Tool '<name>' not found\<close>, and the server is unchanged: the
  \<^verbatim>\<open>ValueError\<close> is raised before the invoker's \<^verbatim>\<open>try\<close> and caught by the dispatcher.
\<close>

theorem unknown_tool_internal_error:
  assumes "dict_get req ''method'' PNone = PStr ''tools/call''"
    and "dict_get req ''params'' (PDict []) = PDict params"
    and "dict_get params ''name'' PNone = PStr name"
    and "getattr_tool env (''tool_'' @ name) = None"
  shows "handle_request env (PDict req) s =
           (Inr (PDict [(''jsonrpc'', PStr ''2.0''), (''id'', dict_get req ''id'' (PStr ''1'')),
                   (''error'', PDict [(''code'', PInt (- 32603)),
                      (''message'',
                       PStr (''Tool '' @ [CHR 0x27] @ name @ [CHR 0x27] @ '' not found''))])]), s)"
  using assms
  by (simp add: handle_request_dict dispatch_def call_tool_def rpc_error_def tool_not_found_def
        apostrophe_def)

theorem unknown_tool_internal_error_witness:
  "dict_get unknown_tool_request ''method'' PNone = PStr ''tools/call'' \<and>
   dict_get unknown_tool_request ''params'' (PDict []) =
     PDict [(''name'', PStr ''does_not_exist''), (''arguments'', PDict [])] \<and>
   dict_get [(''name'', PStr ''does_not_exist''), (''arguments'', PDict [])] ''name'' PNone =
     PStr ''does_not_exist'' \<and>
   getattr_tool demo_env (''tool_'' @ ''does_not_exist'') = None \<and>
   handle_request demo_env (PDict unknown_tool_request) (new_server 0) =
     (Inr (PDict [(''jsonrpc'', PStr ''2.0''), (''id'', PInt 3),
             (''error'', PDict [(''code'', PInt (- 32603)),
                (''message'', PStr ''Tool 'does_not_exist' not found'')])]),
      new_server 0)"
proof -
  have a: "dict_get unknown_tool_request ''method'' PNone = PStr ''tools/call''"
    and b: "dict_get unknown_tool_request ''params'' (PDict []) =
              PDict [(''name'', PStr ''does_not_exist''), (''arguments'', PDict [])]"
    and c: "dict_get [(''name'', PStr ''does_not_exist''), (''arguments'', PDict [])] ''name'' PNone =
              PStr ''does_not_exist''"
    and i: "dict_get unknown_tool_request ''id'' (PStr ''1'') = PInt 3"
    by (simp_all add: dict_get_def unknown_tool_request_def demo_request_def)
  have d: "getattr_tool demo_env (''tool_'' @ ''does_not_exist'') = None"
    by (simp add: demo_env_def ZetaChainMCPServer_def zeta_tool_attrs_def)
  from unknown_tool_internal_error[OF a b c d, of "new_server 0"] a b c d i show ?thesis
    by simp
qed

text \<open>
  Counterexample to claim C1 as stated: for the tool name \<^verbatim>\<open>does_not_exist\<close> the
  response is the error object, and it is not the result that would carry the envelope
  \<^verbatim>\<open>{"success": false, "error": "Tool 'does_not_exist' not found"}\<close> as text.
\<close>

theorem unknown_tool_counterexample:
  "fst (handle_request demo_env (PDict unknown_tool_request) (new_server 0)) =
     Inr (PDict [(''jsonrpc'', PStr ''2.0''), (''id'', PInt 3),
            (''error'', PDict [(''code'', PInt (- 32603)),
               (''message'', PStr ''Tool 'does_not_exist' not found'')])]) \<and>
   fst (handle_request demo_env (PDict unknown_tool_request) (new_server 0)) \<noteq>
     Inr (PDict [(''jsonrpc'', PStr ''2.0''), (''id'', PInt 3),
            (''result'', PDict [(''content'', PList [PDict [(''type'', PStr ''text''),
               (''text'', PStr (json_indented
                  (PDict [(''success'', PBool False),
                          (''error'', PStr ''Tool 'does_not_exist' not found'')]) 0))]])])])"
  by (simp add: handle_request_dict dispatch_def call_tool_def dict_get_def
        unknown_tool_request_def demo_request_def demo_env_def ZetaChainMCPServer_def
        zeta_tool_attrs_def tool_not_found_def apostrophe_def rpc_error_def)



lemma call_tool_envelope:
  "call_tool env name arguments s = (Inr envelope, s') \<Longrightarrow>
     (\<exists>v. envelope = success_envelope v) \<or> (\<exists>m. envelope = failure_envelope m)"
  by (auto simp: call_tool_def success_envelope_def failure_envelope_def
           split: option.splits sum.splits prod.splits)

text \<open>
  Claim C8. Whenever a \<^verbatim>\<open>tools/call\<close> request is answered with a result, the result is
  exactly \<^verbatim>\<open>{"content": [{"type": "text", "text": t}]}\<close> where \<open>t\<close> is the
  \<^verbatim>\<open>json.dumps(..., indent=2)\<close> text of the envelope the invoker returned, and that
  envelope is a success envelope or a failure envelope.
\<close>

theorem tools_call_result_shape:
  assumes "dict_get req ''method'' PNone = PStr ''tools/call''"
    and "handle_request env (PDict req) s = (Inr resp, s')"
    and "dict_field ''result'' resp = Some r"
  shows "\<exists>params envelope t.
           dict_get req ''params'' (PDict []) = PDict params \<and>
           call_tool env (dict_get params ''name'' PNone)
             (dict_get params ''arguments'' (PDict [])) s = (Inr envelope, s') \<and>
           ((\<exists>v. envelope = PDict [(''success'', PBool True), (''result'', v)]) \<or>
            (\<exists>m. envelope = PDict [(''success'', PBool False), (''error'', PStr m)])) \<and>
           json_dumps_indent2 env envelope = Inr t \<and>
           r = PDict [(''content'', PList [PDict [(''type'', PStr ''text''), (''text'', PStr t)]])] \<and>
           resp = PDict [(''jsonrpc'', PStr ''2.0''), (''id'', dict_get req ''id'' (PStr ''1'')),
                    (''result'', r)]"
proof -
  let ?params = "dict_get req ''params'' (PDict [])"
  let ?rid = "dict_get req ''id'' (PStr ''1'')"
  obtain d s1 where d: "dispatch env (PStr ''tools/call'') ?params ?rid s = (d, s1)"
    by (cases "dispatch env (PStr ''tools/call'') ?params ?rid s")
  from assms d have "d = Inr resp" "s1 = s'"
    by (auto simp: handle_request_dict result_rpc_error split: sum.splits)
  with d have disp: "dispatch env (PStr ''tools/call'') ?params ?rid s = (Inr resp, s')"
    by simp
  then obtain params where p: "?params = PDict params"
    by (cases ?params) (auto simp: dispatch_def)
  from disp p obtain envelope t where
    c: "call_tool env (dict_get params ''name'' PNone) (dict_get params ''arguments'' (PDict [])) s
          = (Inr envelope, s')"
    and t: "json_dumps_indent2 env envelope = Inr t"
    and r: "resp = rpc_result ?rid (text_content t)"
    by (auto simp: dispatch_def split: sum.splits prod.splits)
  from r assms(3) have r1: "r = PDict [(''content'', PList [PDict [(''type'', PStr ''text''), (''text'', PStr t)]])]"
    by (simp add: result_rpc_result text_content_def)
  with r have r2: "resp = PDict [(''jsonrpc'', PStr ''2.0''), (''id'', ?rid), (''result'', r)]"
    by (simp add: rpc_result_def text_content_def)
  from call_tool_envelope[OF c]
  have "(\<exists>v. envelope = PDict [(''success'', PBool True), (''result'', v)]) \<or>
        (\<exists>m. envelope = PDict [(''success'', PBool False), (''error'', PStr m)])"
    by (simp add: success_envelope_def failure_envelope_def)
  with p c t r1 r2 show ?thesis
    by blast
qed

theorem tools_call_result_shape_witness:
  "dict_get status_request ''method'' PNone = PStr ''tools/call'' \<and>
   handle_request demo_env (PDict status_request) (new_server 0) =
     (Inr (PDict [(''jsonrpc'', PStr ''2.0''), (''id'', PInt 5),
        (''result'', PDict [(''content'', PList [PDict [(''type'', PStr ''text''),
           (''text'', PStr (json_indented
              (PDict [(''success'', PBool True),
                      (''result'', PDict [(''tool'', PStr ''tool_get_chain_status''),
                                          (''arguments'', PDict [])])]) 0))]])])]),
      (new_server 0)\<lparr>world := 1\<rparr>) \<and>
   dict_field ''result''
     (PDict [(''jsonrpc'', PStr ''2.0''), (''id'', PInt 5),
        (''result'', PDict [(''content'', PList [PDict [(''type'', PStr ''text''),
           (''text'', PStr (json_indented
              (PDict [(''success'', PBool True),
                      (''result'', PDict [(''tool'', PStr ''tool_get_chain_status''),
                                          (''arguments'', PDict [])])]) 0))]])])]) =
     Some (PDict [(''content'', PList [PDict [(''type'', PStr ''text''),
           (''text'', PStr (json_indented
              (PDict [(''success'', PBool True),
                      (''result'', PDict [(''tool'', PStr ''tool_get_chain_status''),
                                          (''arguments'', PDict [])])]) 0))]])]) \<and>
   (\<exists>envelope t.
      call_tool demo_env (PStr ''get_chain_status'') (PDict []) (new_server 0) =
        (Inr envelope, (new_server 0)\<lparr>world := 1\<rparr>) \<and>
      envelope = PDict [(''success'', PBool True),
                        (''result'', PDict [(''tool'', PStr ''tool_get_chain_status''),
                                            (''arguments'', PDict [])])] \<and>
      json_dumps_indent2 demo_env envelope = Inr t)"
proof -
  let ?env = "PDict [(''success'', PBool True),
                     (''result'', PDict [(''tool'', PStr ''tool_get_chain_status''),
                                         (''arguments'', PDict [])])]"
  let ?r = "PDict [(''content'', PList [PDict [(''type'', PStr ''text''),
              (''text'', PStr (json_indented ?env 0))]])]"
  let ?resp = "PDict [(''jsonrpc'', PStr ''2.0''), (''id'', PInt 5), (''result'', ?r)]"
  have a: "dict_get status_request ''method'' PNone = PStr ''tools/call''"
    by (simp add: dict_get_def status_request_def demo_request_def)
  have p: "dict_get status_request ''params'' (PDict []) = PDict [(''name'', PStr ''get_chain_status'')]"
    by (simp add: dict_get_def status_request_def demo_request_def)
  have b: "handle_request demo_env (PDict status_request) (new_server 0) =
             (Inr ?resp, (new_server 0)\<lparr>world := 1\<rparr>)"
    by (simp add: handle_request_dict dispatch_def call_tool_def dict_get_def status_request_def
          demo_request_def demo_env_def ZetaChainMCPServer_def zeta_tool_attrs_def demo_py_def
          demo_managers_def new_server_def rpc_result_def text_content_def)
  have c: "dict_field ''result'' ?resp = Some ?r"
    by (simp add: dict_field_def)
  from tools_call_result_shape[OF a b c] obtain params envelope t where
    p': "dict_get status_request ''params'' (PDict []) = PDict params"
    and ct: "call_tool demo_env (dict_get params ''name'' PNone)
               (dict_get params ''arguments'' (PDict [])) (new_server 0) =
               (Inr envelope, (new_server 0)\<lparr>world := 1\<rparr>)"
    and t: "json_dumps_indent2 demo_env envelope = Inr t"
    by blast
  from p p' have params: "params = [(''name'', PStr ''get_chain_status'')]"
    by simp
  from ct have ct': "call_tool demo_env (PStr ''get_chain_status'') (PDict []) (new_server 0) =
      (Inr envelope, (new_server 0)\<lparr>world := 1\<rparr>)"
    by (simp add: params dict_get_def)
  then have "envelope = ?env"
    by (simp add: call_tool_def demo_env_def ZetaChainMCPServer_def zeta_tool_attrs_def
          demo_managers_def new_server_def)
  with a b c ct' t show ?thesis
    by blast
qed

lemma tool_None_unbound: "''tool_None'' \<notin> set zeta_tool_attrs"
  by (simp add: zeta_tool_attrs_def)

text \<open>
  Claim C10. On the server of \<^verbatim>\<open>server.py\<close>, a \<^verbatim>\<open>tools/call\<close> request whose params
  mapping has no \<^verbatim>\<open>name\<close> key is answered with the error \<open>-32603\<close> and the message
  \<^verbatim>\<open>Tool 'None' not found\<close>: the name defaults to \<^verbatim>\<open>None\<close>, no attribute
  \<^verbatim>\<open>tool_None\<close> exists, and the \<^verbatim>\<open>ValueError\<close> leaves \<^verbatim>\<open>call_tool\<close> and is
  converted by the dispatcher.
\<close>

theorem missing_name_internal_error:
  assumes "dict_get req ''method'' PNone = PStr ''tools/call''"
    and "dict_get req ''params'' (PDict []) = PDict params"
    and "map_of params ''name'' = None"
  shows "call_tool (ZetaChainMCPServer py managers cc) PNone
           (dict_get params ''arguments'' (PDict [])) s =
           (Inl (PyExc ''ValueError'' ''Tool 'None' not found''), s) \<and>
         handle_request (ZetaChainMCPServer py managers cc) (PDict req) s =
           (Inr (PDict [(''jsonrpc'', PStr ''2.0''), (''id'', dict_get req ''id'' (PStr ''1'')),
                   (''error'', PDict [(''code'', PInt (- 32603)),
                                      (''message'', PStr ''Tool 'None' not found'')])]), s)"
  using assms tool_None_unbound
  by (simp add: handle_request_dict dispatch_def call_tool_def dict_get_def rpc_error_def
        ZetaChainMCPServer_def tool_not_found_def apostrophe_def)

theorem missing_name_internal_error_witness:
  "dict_get nameless_request ''method'' PNone = PStr ''tools/call'' \<and>
   dict_get nameless_request ''params'' (PDict []) = PDict [(''arguments'', PDict [])] \<and>
   map_of [(''arguments'', PDict [])] ''name'' = None \<and>
   call_tool demo_env PNone (PDict []) (new_server 0) =
     (Inl (PyExc ''ValueError'' ''Tool 'None' not found''), new_server 0) \<and>
   handle_request demo_env (PDict nameless_request) (new_server 0) =
     (Inr (PDict [(''jsonrpc'', PStr ''2.0''), (''id'', PInt 6),
             (''error'', PDict [(''code'', PInt (- 32603)),
                                (''message'', PStr ''Tool 'None' not found'')])]),
      new_server 0)"
proof -
  have a: "dict_get nameless_request ''method'' PNone = PStr ''tools/call''"
    and b: "dict_get nameless_request ''params'' (PDict []) = PDict [(''arguments'', PDict [])]"
    and i: "dict_get nameless_request ''id'' (PStr ''1'') = PInt 6"
    by (simp_all add: dict_get_def nameless_request_def demo_request_def)
  have c: "map_of [(''arguments'', PDict [])] ''name'' = None"
    by simp
  have g: "dict_get [(''arguments'', PDict [])] ''arguments'' (PDict []) = PDict []"
    by (simp add: dict_get_def)
  from missing_name_internal_error[OF a b c, of demo_py demo_managers "\<lambda>w. w" "new_server 0"]
    a b c i g show ?thesis
    by (simp add: demo_env_def)
qed

subsection \<open>Initialization and the tool registry\<close>

lemma call_tool_keeps:
  "call_tool env name arguments s = (r, s') \<Longrightarrow>
     tools s' = tools s \<and> initialized s' = initialized s \<and> load_calls s' = load_calls s \<and>
     transport_closed s' = transport_closed s"
  by (auto simp: call_tool_def split: option.splits sum.splits prod.splits)

lemma initialize_keeps_transport:
  "initialize env s = (r, s') \<Longrightarrow> transport_closed s' = transport_closed s"
  by (auto simp: initialize_def split: if_splits sum.splits prod.splits)

lemma initialize_again: "initialized s \<Longrightarrow> initialize env s = (Inr initialize_result, s)"
  by (simp add: initialize_def)

lemma initialize_returns:
  "initialize env s = (Inr payload, s1) \<Longrightarrow>
     payload = initialize_result \<and> initialized s1 \<and> load_calls s1 \<le> Suc (load_calls s)"
  by (auto simp: initialize_def split: if_splits sum.splits prod.splits)

lemma dispatch_keeps_transport:
  "dispatch env m p rid s = (r, s') \<Longrightarrow> transport_closed s' = transport_closed s"
  by (auto simp: dispatch_def split: if_splits sum.splits prod.splits
           dest: call_tool_keeps initialize_keeps_transport)

lemma handle_request_keeps_transport:
  "handle_request env request s = (r, s') \<Longrightarrow> transport_closed s' = transport_closed s"
  by (auto simp: handle_request_def split: sum.splits prod.splits dest: dispatch_keeps_transport)

lemma dispatch_keeps_registry:
  "initialized s \<Longrightarrow> dispatch env m p rid s = (r, s') \<Longrightarrow>
     initialized s' \<and> tools s' = tools s \<and> load_calls s' = load_calls s"
  by (auto simp: dispatch_def initialize_again split: if_splits sum.splits prod.splits
           dest: call_tool_keeps)

lemma handle_request_keeps_registry:
  "initialized s \<Longrightarrow> handle_request env request s = (r, s') \<Longrightarrow>
     initialized s' \<and> tools s' = tools s \<and> load_calls s' = load_calls s"
  by (auto simp: handle_request_def split: sum.splits prod.splits dest: dispatch_keeps_registry)

lemma handle_requests_keep_registry:
  "initialized s \<Longrightarrow>
     initialized (handle_requests env reqs s) \<and> tools (handle_requests env reqs s) = tools s \<and>
     load_calls (handle_requests env reqs s) = load_calls s"
proof (induction reqs arbitrary: s)
  case Nil
  then show ?case by simp
next
  case (Cons request rest)
  obtain r s' where step: "handle_request env request s = (r, s')"
    by (cases "handle_request env request s")
  from handle_request_keeps_registry[OF Cons.prems step] Cons.IH[of s'] step
  show ?case by simp
qed

text \<open>
  The loader of \<^verbatim>\<open>server.py\<close> never raises, so on that server the counter of loader
  runs is 1 once the flag is set and 0 before, whatever requests arrive.
\<close>

lemma zeta_step_loaded_once:
  assumes "loaded_once s"
    and "handle_request (ZetaChainMCPServer py managers cc) request s = (r, s')"
  shows "loaded_once s'"
proof (cases request)
  case (PDict req)
  obtain d s1 where d: "dispatch (ZetaChainMCPServer py managers cc)
      (dict_get req ''method'' PNone) (dict_get req ''params'' (PDict []))
      (dict_get req ''id'' (PStr ''1'')) s = (d, s1)"
    by (cases "dispatch (ZetaChainMCPServer py managers cc)
      (dict_get req ''method'' PNone) (dict_get req ''params'' (PDict []))
      (dict_get req ''id'' (PStr ''1'')) s")
  with assms(2) PDict have s': "s' = s1"
    by (auto simp: handle_request_dict split: sum.splits)
  from d assms(1) have "loaded_once s1"
    by (auto simp: dispatch_def initialize_def ZetaChainMCPServer_def loaded_once_def
             split: if_splits sum.splits prod.splits dest!: call_tool_keeps)
  with s' show ?thesis by simp
qed (use assms in \<open>auto simp: handle_request_def\<close>)

lemma zeta_loaded_once:
  "loaded_once s \<Longrightarrow> loaded_once (handle_requests (ZetaChainMCPServer py managers cc) reqs s)"
proof (induction reqs arbitrary: s)
  case Nil
  then show ?case by simp
next
  case (Cons request rest)
  obtain r s' where step: "handle_request (ZetaChainMCPServer py managers cc) request s = (r, s')"
    by (cases "handle_request (ZetaChainMCPServer py managers cc) request s")
  from Cons.IH[OF zeta_step_loaded_once[OF Cons.prems step]] step show ?case
    by simp
qed

text \<open>
  Claim C4. If a call of \<^verbatim>\<open>initialize\<close> returns its payload, a second call returns the
  same payload and leaves the server exactly as it was: the loader is not run again
  (it ran at most once in the first call), and no later request runs it or changes the
  registry. On the server of \<^verbatim>\<open>server.py\<close>, a new instance runs its loader at most
  once over any sequence of requests.
\<close>

theorem initialize_idempotent:
  assumes "initialize env s = (Inr payload, s1)"
  shows "initialize env s1 = (Inr payload, s1) \<and> load_calls s1 \<le> Suc (load_calls s) \<and>
         (\<forall>reqs. load_calls (handle_requests env reqs s1) = load_calls s1 \<and>
                 tools (handle_requests env reqs s1) = tools s1) \<and>
         (\<forall>py managers cc reqs w.
            load_calls (handle_requests (ZetaChainMCPServer py managers cc) reqs
                          (new_server w :: 'w server)) \<le> 1)"
proof -
  have "loaded_once (new_server w :: 'w server)" for w
    by (simp add: loaded_once_def new_server_def)
  from zeta_loaded_once[OF this]
  have "load_calls (handle_requests (ZetaChainMCPServer py managers cc) reqs
          (new_server w :: 'w server)) \<le> 1" for py managers cc reqs w
    by (simp add: loaded_once_def split: if_splits)
  with initialize_returns[OF assms] handle_requests_keep_registry[of s1 env]
  show ?thesis
    by (simp add: initialize_again)
qed

theorem initialize_idempotent_witness:
  "initialize demo_env (new_server 0) = (Inr initialize_result, initialized_demo) \<and>
   initialize demo_env initialized_demo = (Inr initialize_result, initialized_demo) \<and>
   load_calls initialized_demo \<le> Suc (load_calls (new_server (0::nat))) \<and>
   load_calls (handle_requests demo_env
      [PDict [(''method'', PStr ''initialize'')], PDict boom_request] initialized_demo) = 1 \<and>
   load_calls (handle_requests demo_env
      [PDict [(''method'', PStr ''tools/list'')], PDict [(''method'', PStr ''initialize'')],
       PDict [(''method'', PStr ''initialize'')]] (new_server 0)) \<le> 1"
proof -
  have h: "initialize demo_env (new_server 0) = (Inr initialize_result, initialized_demo)"
    by (simp add: initialize_def demo_env_def ZetaChainMCPServer_def new_server_def
          initialized_demo_def)
  have one: "load_calls initialized_demo = 1"
    by (simp add: initialized_demo_def)
  from initialize_idempotent[OF h]
  have again: "initialize demo_env initialized_demo = (Inr initialize_result, initialized_demo)"
    and bound: "load_calls initialized_demo \<le> Suc (load_calls (new_server (0::nat)))"
    and later: "load_calls (handle_requests demo_env
        [PDict [(''method'', PStr ''initialize'')], PDict boom_request] initialized_demo) =
        load_calls initialized_demo"
    by blast+
  note per_instance =
    initialize_idempotent[OF h, THEN conjunct2, THEN conjunct2, THEN conjunct2, rule_format]
  have whole: "load_calls (handle_requests (ZetaChainMCPServer demo_py demo_managers (\<lambda>w. w))
        [PDict [(''method'', PStr ''tools/list'')], PDict [(''method'', PStr ''initialize'')],
         PDict [(''method'', PStr ''initialize'')]] (new_server 0)) \<le> 1"
    by (rule per_instance)
  from h again bound later one whole show ?thesis
    by (simp add: demo_env_def del: handle_requests.simps)
qed


text \<open>Every listed descriptor carries the name of one of the \<^verbatim>\<open>tool_\<close> methods, in order.\<close>

lemma zeta_names_are_methods:
  "map (dict_field ''name'') zeta_tools = map (\<lambda>attr. Some (PStr (drop 5 attr))) zeta_tool_attrs"
  by (simp add: zeta_tools_def zeta_tool_attrs_def dict_field_def)





subsection \<open>The stream adapter\<close>

lemma run_loop_parse_error:
  assumes "\<not> transport_closed s"
    and "strip line \<noteq> []"
    and "json_loads env (strip line) = Inl e"
    and "exc_class e = ''JSONDecodeError''"
    and "json_dumps env (parse_error_response e) = Inr t"
  shows "run_loop env (Readline line # rest) s =
           (case run_loop env rest s of (r, out, s') \<Rightarrow> (r, t # out, s'))"
proof -
  from assms(2) have "line \<noteq> []" by (auto simp: strip_def)
  with assms show ?thesis
    by (simp add: read_request_def write_response_def)
qed

lemma run_loop_request:
  assumes "\<not> transport_closed s"
    and "strip line \<noteq> []"
    and "json_loads env (strip line) = Inr request"
    and "handle_request env request s = (Inr resp, s1)"
    and "json_dumps env resp = Inr t"
  shows "run_loop env (Readline line # rest) s =
           (case run_loop env rest s1 of (r, out, s') \<Rightarrow> (r, t # out, s'))"
proof -
  from assms(2) have "line \<noteq> []" by (auto simp: strip_def)
  moreover from handle_request_keeps_transport[OF assms(4)] assms(1)
  have "\<not> transport_closed s1" by simp
  ultimately show ?thesis using assms
    by (simp add: read_request_def write_response_def)
qed

lemma run_loop_blank:
  "strip line = [] \<Longrightarrow> run_loop env (Readline line # rest) s = (None, [], s)"
  by (simp add: read_request_def)

text \<open>
  Claim C5, as the code has it. A line that is not empty after \<^verbatim>\<open>strip\<close> and is not
  valid JSON (\<^verbatim>\<open>json.loads\<close> raises \<^verbatim>\<open>JSONDecodeError\<close> on it) makes the adapter write
  the response with code \<open>-32700\<close> and id \<^verbatim>\<open>null\<close>, and the loop goes on with the rest of
  the input: a following line holding a request object is dispatched and its response
  written. (The serialiser is assumed to accept both responses.) A line that is empty
  after \<^verbatim>\<open>strip\<close> ends the loop with nothing written.
\<close>

theorem parse_error_then_continue:
  assumes "\<not> transport_closed s"
    and "strip line \<noteq> []"
    and "json_loads env (strip line) = Inl e"
    and "exc_class e = ''JSONDecodeError''"
    and "json_dumps env
           (PDict [(''jsonrpc'', PStr ''2.0''), (''id'', PNone),
              (''error'', PDict [(''code'', PInt (- 32700)),
                 (''message'', PStr (''Parse error: '' @ exc_str e))])]) = Inr t"
    and "strip line2 \<noteq> []"
    and "json_loads env (strip line2) = Inr (PDict req)"
    and "handle_request env (PDict req) s = (Inr resp, s2)"
    and "json_dumps env resp = Inr t2"
  shows "run_loop env (Readline line # rest) s =
           (case run_loop env rest s of (r, out, s') \<Rightarrow> (r, t # out, s')) \<and>
         run_loop env (Readline line # Readline line2 # rest2) s =
           (case run_loop env rest2 s2 of (r, out, s') \<Rightarrow> (r, t # t2 # out, s')) \<and>
         (\<forall>blank rest3. strip blank = [] \<longrightarrow>
            run_loop env (Readline blank # rest3) s = (None, [], s))"
proof -
  from assms(5) have t: "json_dumps env (parse_error_response e) = Inr t"
    by (simp add: parse_error_response_def rpc_error_def)
  have one: "\<And>rest. run_loop env (Readline line # rest) s =
           (case run_loop env rest s of (r, out, s') \<Rightarrow> (r, t # out, s'))"
    using assms(1-4) t by (rule run_loop_parse_error)
  have two: "run_loop env (Readline line2 # rest2) s =
           (case run_loop env rest2 s2 of (r, out, s') \<Rightarrow> (r, t2 # out, s'))"
    using assms(1) assms(6-9) by (rule run_loop_request)
  show ?thesis
    by (simp add: one two run_loop_blank del: run_loop.simps split: prod.splits)
qed

theorem parse_error_then_continue_witness:
  "\<not> transport_closed (new_server (0::nat)) \<and>
   strip (''{bad'' @ [CHR 0x0A]) \<noteq> [] \<and>
   json_loads demo_env (strip (''{bad'' @ [CHR 0x0A])) = Inl bad_line_error \<and>
   exc_class bad_line_error = ''JSONDecodeError'' \<and>
   json_dumps demo_env
     (PDict [(''jsonrpc'', PStr ''2.0''), (''id'', PNone),
        (''error'', PDict [(''code'', PInt (- 32700)),
           (''message'', PStr (''Parse error: '' @ exc_str bad_line_error))])]) =
     Inr (json_compact
       (PDict [(''jsonrpc'', PStr ''2.0''), (''id'', PNone),
          (''error'', PDict [(''code'', PInt (- 32700)),
             (''message'', PStr (''Parse error: '' @ exc_str bad_line_error))])])) \<and>
   strip (ping_line @ [CHR 0x0A]) \<noteq> [] \<and>
   json_loads demo_env (strip (ping_line @ [CHR 0x0A])) =
     Inr (PDict [(''id'', PInt 7), (''method'', PStr ''ping'')]) \<and>
   handle_request demo_env (PDict [(''id'', PInt 7), (''method'', PStr ''ping'')]) (new_server 0) =
     (Inr (PDict [(''jsonrpc'', PStr ''2.0''), (''id'', PInt 7),
             (''error'', PDict [(''code'', PInt (- 32601)),
                                (''message'', PStr ''Method not found: ping'')])]),
      new_server 0) \<and>
   run_loop demo_env [Readline (''{bad'' @ [CHR 0x0A]), Readline (ping_line @ [CHR 0x0A])]
     (new_server 0) =
     (None,
      [json_compact
         (PDict [(''jsonrpc'', PStr ''2.0''), (''id'', PNone),
            (''error'', PDict [(''code'', PInt (- 32700)),
               (''message'', PStr (''Parse error: '' @ exc_str bad_line_error))])]),
       json_compact
         (PDict [(''jsonrpc'', PStr ''2.0''), (''id'', PInt 7),
            (''error'', PDict [(''code'', PInt (- 32601)),
                               (''message'', PStr ''Method not found: ping'')])])],
      new_server 0) \<and>
   run_loop demo_env [Readline ('' '' @ [CHR 0x0D, CHR 0x0A]), Readline (ping_line @ [CHR 0x0A])]
     (new_server 0) = (None, [], new_server 0)"
proof -
  let ?s = "new_server (0::nat)"
  let ?ping = "[(''id'', PInt 7), (''method'', PStr ''ping'')]"
  let ?perr = "PDict [(''jsonrpc'', PStr ''2.0''), (''id'', PNone),
          (''error'', PDict [(''code'', PInt (- 32700)),
             (''message'', PStr (''Parse error: '' @ exc_str bad_line_error))])]"
  let ?mnf = "PDict [(''jsonrpc'', PStr ''2.0''), (''id'', PInt 7),
            (''error'', PDict [(''code'', PInt (- 32601)),
                               (''message'', PStr ''Method not found: ping'')])]"
  have a: "\<not> transport_closed ?s"
    by (simp add: new_server_def)
  have b: "strip (''{bad'' @ [CHR 0x0A]) \<noteq> []"
    by (simp add: strip_def is_space_def)
  have c: "json_loads demo_env (strip (''{bad'' @ [CHR 0x0A])) = Inl bad_line_error"
    by (simp add: strip_def is_space_def demo_env_def ZetaChainMCPServer_def demo_py_def
          demo_loads_def ping_line_def bad_line_error_def)
  have d: "exc_class bad_line_error = ''JSONDecodeError''"
    by (simp add: bad_line_error_def)
  have e: "json_dumps demo_env ?perr = Inr (json_compact ?perr)"
    by (simp add: demo_env_def ZetaChainMCPServer_def demo_py_def)
  have f: "strip (ping_line @ [CHR 0x0A]) \<noteq> []"
    by (simp add: strip_def is_space_def ping_line_def)
  have g: "json_loads demo_env (strip (ping_line @ [CHR 0x0A])) = Inr (PDict ?ping)"
    by (simp add: strip_def is_space_def demo_env_def ZetaChainMCPServer_def demo_py_def
          demo_loads_def ping_line_def)
  have h: "handle_request demo_env (PDict ?ping) ?s = (Inr ?mnf, ?s)"
    by (simp add: handle_request_dict dispatch_def dict_get_def rpc_error_def)
  have i: "json_dumps demo_env ?mnf = Inr (json_compact ?mnf)"
    by (simp add: demo_env_def ZetaChainMCPServer_def demo_py_def)
  have k: "strip ('' '' @ [CHR 0x0D, CHR 0x0A]) = []"
    by (simp add: strip_def is_space_def)
  note inst = parse_error_then_continue[OF a b c d e f g h i, of "[]" "[]"]
  from inst have two: "run_loop demo_env
      [Readline (''{bad'' @ [CHR 0x0A]), Readline (ping_line @ [CHR 0x0A])] ?s =
      (None, [json_compact ?perr, json_compact ?mnf], ?s)"
    by simp
  from inst k have blank: "run_loop demo_env
      [Readline ('' '' @ [CHR 0x0D, CHR 0x0A]), Readline (ping_line @ [CHR 0x0A])] ?s =
      (None, [], ?s)"
    by blast
  from a b c d e f g h two blank show ?thesis
    by (simp del: run_loop.simps)
qed

text \<open>
  Counterexample to claim C5 as stated: a blank line is not valid JSON, but after
  \<^verbatim>\<open>strip\<close> it is the empty string, which the loop takes for the end of the input.
  Nothing is written, and the request on the next line is never read.
\<close>

theorem blank_line_counterexample:
  "json_loads demo_env (strip [CHR 0x0A]) =
     Inl (PyExc ''JSONDecodeError'' ''Expecting value: line 1 column 1 (char 0)'') \<and>
   run_loop demo_env [Readline [CHR 0x0A], Readline (ping_line @ [CHR 0x0A])] (new_server 0) =
     (None, [], new_server 0) \<and>
   fst (snd (run demo_env [Readline [CHR 0x0A], Readline (ping_line @ [CHR 0x0A])]
               (new_server 0))) = []"
  by (simp add: run_def initialize_def read_request_def new_server_def strip_def is_space_def
        demo_env_def ZetaChainMCPServer_def demo_py_def demo_loads_def ping_line_def)

end
